theory Spec2Isabelle
  imports Main "HOL-Library.Word"
begin

section \<open>The multi data logger: levels, messages, loggers and the component\<close>

text \<open>
  A shallow embedding of \<^verbatim>\<open>src/main.cpp\<close> (namespace \<^verbatim>\<open>tp\<close>). Template
  parameters become ordinary arguments, the standard output becomes a string that grows,
  an \<^verbatim>\<open>assert\<close> that fails becomes the result \<open>Inl Assertion_failed\<close>, and a read
  beyond the end of an array becomes the result \<open>Inl Out_of_bounds\<close>.
\<close>

subsection \<open>Basic types\<close>

type_synonym can_id_t = "32 word"

text \<open>\<^verbatim>\<open>std::size_t\<close>, taken as 64 bits wide. No arithmetic is done on it.\<close>

type_synonym size_t = "64 word"

definition max_data_size :: nat where
  "max_data_size = 6"

text \<open>
  \<^verbatim>\<open>can_data_t\<close> is \<^verbatim>\<open>std::array<std::size_t, max_data_size>\<close>: a list of
  \<open>max_data_size\<close> values. The function \<open>can_data_t\<close> is the aggregate initialisation
  \<^verbatim>\<open>can_data_t{a, b, ...}\<close>: the initialisers fill the first slots and every slot
  without an initialiser is value-initialised, which is zero for \<^verbatim>\<open>std::size_t\<close>.
  (More initialisers than slots do not compile; the model keeps the first
  \<open>max_data_size\<close> of them.)
\<close>

type_synonym can_data_t = "size_t list"

definition can_data_t :: "size_t list \<Rightarrow> can_data_t" where
  "can_data_t inits =
     take max_data_size inits @ replicate (max_data_size - length inits) 0"

subsection \<open>Log levels\<close>

text \<open>
  \<^verbatim>\<open>enum class log_level\<close>, lines 17 to 24. A scoped enumeration without a declared
  base has the underlying type \<^verbatim>\<open>int\<close>, taken as 32 bits wide, and every value of
  that type is a value of the enumeration: a \<^verbatim>\<open>static_cast\<close> makes it, and it can
  be the \<^verbatim>\<open>Level\<close> template argument. So a level is a 32-bit word, read as a signed
  number, and the five enumerators are the values 0 to 4.
\<close>

type_synonym log_level = "32 word"

definition info :: log_level where
  "info = 0"

definition warning :: log_level where
  "warning = 1"

definition error :: log_level where
  "error = 2"

definition fatal :: log_level where
  "fatal = 3"

definition count :: log_level where
  "count = 4"

text \<open>
  \<^verbatim>\<open>static_cast<std::size_t>(level)\<close>: the signed value converted to the unsigned
  64-bit type, which extends the sign, so that a negative level becomes a value near
  \<open>2 ^ 64\<close>.
\<close>

definition static_cast_size_t :: "log_level \<Rightarrow> size_t" where
  "static_cast_size_t level = scast level"

text \<open>
  How a run can end without returning. \<open>Assertion_failed\<close>: the \<^verbatim>\<open>assert\<close> of
  \<open>to_string\<close> fails and the program aborts. \<open>Out_of_bounds\<close>: \<^verbatim>\<open>names[i]\<close> is
  evaluated with an index that is not in the array; the language leaves the behaviour
  undefined, and the model stops there. \<open>Format_error\<close>: a format string does not fit
  its arguments (the standard library checks format strings when the program is
  compiled, so no such program runs). \<open>Ill_formed\<close>: a logger is handed a message of
  another logger's type, or a message is asked for a class that \<open>create_message\<close> does
  not know (neither compiles).
\<close>

datatype failure = Assertion_failed | Out_of_bounds | Format_error | Ill_formed

text \<open>The array \<^verbatim>\<open>names\<close> of lines 29 to 35; it has \<^verbatim>\<open>log_level::count\<close> slots.\<close>

definition names :: "string list" where
  "names = [''info'', ''warning'', ''error'', ''fatal'']"

text \<open>
  \<^verbatim>\<open>to_string\<close>, lines 26 to 37, built with assertions enabled (the source does not
  define \<^verbatim>\<open>NDEBUG\<close>). The assertion compares the two levels as signed numbers, so
  it only bounds the level from above; the index is the level converted to
  \<^verbatim>\<open>std::size_t\<close>.
\<close>

definition to_string :: "log_level \<Rightarrow> failure + string" where
  "to_string level =
     (if sint level < sint count then
        (let i = unat (static_cast_size_t level)
         in if i < length names then Inr (names ! i) else Inl Out_of_bounds)
      else Inl Assertion_failed)"

subsection \<open>Formatting, as far as the program uses \<^verbatim>\<open>std::format\<close>\<close>

text \<open>
  The standard library is not part of the repository. The program uses three of its
  behaviours, modelled here: a replacement field \<^verbatim>\<open>{}\<close> takes the next argument;
  an integer is written in decimal; a \<^verbatim>\<open>std::array\<close> is written as
  \<^verbatim>\<open>[a, b, c]\<close>.
\<close>

text \<open>The character of a decimal digit \<open>d < 10\<close>; \<open>dec\<close> only asks for those.\<close>

definition digit :: "nat \<Rightarrow> char" where
  "digit d = ''0123456789'' ! d"

function dec :: "nat \<Rightarrow> string" where
  "dec n = (if n < 10 then [digit n] else dec (n div 10) @ [digit (n mod 10)])"
  by pat_completeness auto
termination
  by (relation "measure id") auto

declare dec.simps [simp del]

text \<open>The formatter of \<^verbatim>\<open>std::size_t\<close> (unsigned) and of \<^verbatim>\<open>std::int32_t\<close> (signed).\<close>

definition format_size_t :: "size_t \<Rightarrow> string" where
  "format_size_t v = dec (unat v)"

definition format_int32 :: "can_id_t \<Rightarrow> string" where
  "format_int32 v = (if sint v < 0 then CHR ''-'' # dec (nat (- sint v)) else dec (nat (sint v)))"

fun join :: "string \<Rightarrow> string list \<Rightarrow> string" where
  "join sep [] = []"
| "join sep [x] = x"
| "join sep (x # y # ys) = x @ sep @ join sep (y # ys)"

definition format_range :: "size_t list \<Rightarrow> string" where
  "format_range xs = ''['' @ join '', '' (map format_size_t xs) @ '']''"

text \<open>
  Substituting already formatted arguments for the replacement fields of a format
  string, left to right. A brace that is not part of \<^verbatim>\<open>{}\<close>, and a field with no
  argument left, make the format string invalid (\<open>None\<close>); arguments left over are
  ignored, as the library does.
\<close>

fun vformat :: "string \<Rightarrow> string list \<Rightarrow> string option" where
  "vformat [] args = Some []"
| "vformat [c] args = (if c = CHR ''{'' \<or> c = CHR ''}'' then None else Some [c])"
| "vformat (c # d # fmt) args =
     (if c = CHR ''{'' then
        (if d = CHR ''}'' then
           (case args of
              [] \<Rightarrow> None
            | a # rest \<Rightarrow> map_option ((@) a) (vformat fmt rest))
         else None)
      else if c = CHR ''}'' then None
      else map_option ((#) c) (vformat (d # fmt) args))"

subsection \<open>The standard output and the history of calls\<close>

text \<open>
  The program's only effect is text written to the standard output. Beside it the state
  keeps \<open>trace\<close>, a history of the calls that the dispatch routine made (one entry per
  call of \<^verbatim>\<open>create_message\<close> and per call of a logger's \<^verbatim>\<open>log\<close>), so that how often
  and in which order the loggers are invoked can be stated. No function reads it, and
  the dispatch routine alone writes it.
\<close>

record input_data =
  length' :: size_t
  width :: size_t
  height :: size_t

text \<open>\<^verbatim>\<open>can_logger::message\<close>.\<close>

record can_message =
  can_id :: can_id_t
  data :: can_data_t

text \<open>
  \<^verbatim>\<open>file_logger::message<Format, Args...>\<close>: the format string (a template argument)
  and the arguments. The program only instantiates it with \<^verbatim>\<open>std::size_t\<close>
  arguments.
\<close>

record file_message =
  format :: string
  args :: "size_t list"

datatype message = Can_message can_message | File_message file_message

text \<open>
  The classes a \<^verbatim>\<open>Logger\<close> template argument can name: the two loggers of the
  program, and any other class.
\<close>

datatype logger_type = Can_logger | File_logger | Other_logger string

text \<open>
  A reference to a logger object, as held in \<^verbatim>\<open>std::tuple<Loggers &...>\<close>: the
  static type of the object and the object's address.
\<close>

datatype logger_ref = Can_logger_ref nat | File_logger_ref nat

text \<open>\<^verbatim>\<open>std::decay_t<decltype(logger)>\<close>.\<close>

fun logger_t :: "logger_ref \<Rightarrow> logger_type" where
  "logger_t (Can_logger_ref a) = Can_logger"
| "logger_t (File_logger_ref a) = File_logger"

datatype call =
    Create_message logger_type input_data message
  | Log logger_ref log_level message

record world =
  stdout :: string
  trace :: "call list"

text \<open>\<^verbatim>\<open>std::print\<close> and \<^verbatim>\<open>std::println\<close> on already formatted arguments.\<close>

definition print :: "string \<Rightarrow> string list \<Rightarrow> world \<Rightarrow> failure + world" where
  "print fmt as w =
     (case vformat fmt as of
        None \<Rightarrow> Inl Format_error
      | Some text \<Rightarrow> Inr (w\<lparr>stdout := stdout w @ text\<rparr>))"

definition println :: "string \<Rightarrow> string list \<Rightarrow> world \<Rightarrow> failure + world" where
  "println fmt as w =
     (case vformat fmt as of
        None \<Rightarrow> Inl Format_error
      | Some text \<Rightarrow> Inr (w\<lparr>stdout := stdout w @ text @ [CHR 0x0A]\<rparr>))"

subsection \<open>The loggers\<close>

text \<open>
  \<^verbatim>\<open>can_logger::log<Level>\<close>, lines 49 to 53. The arguments of \<^verbatim>\<open>println\<close> are
  evaluated first, so a failing assertion in \<open>to_string\<close> aborts before anything is
  written.
\<close>

definition can_logger_log :: "log_level \<Rightarrow> can_message \<Rightarrow> world \<Rightarrow> failure + world" where
  "can_logger_log Level msg w =
     (case to_string Level of
        Inl e \<Rightarrow> Inl e
      | Inr name \<Rightarrow>
          println ''{}: can logger: can id: {}, data: {}''
            [name, format_int32 (can_id msg), format_range (data msg)] w)"

text \<open>\<^verbatim>\<open>file_logger::log<Level, Format, Args...>\<close>, lines 75 to 85.\<close>

definition file_logger_log :: "log_level \<Rightarrow> file_message \<Rightarrow> world \<Rightarrow> failure + world" where
  "file_logger_log Level msg w =
     (case to_string Level of
        Inl e \<Rightarrow> Inl e
      | Inr name \<Rightarrow>
          (case print ''{}: file logger: '' [name] w of
             Inl e \<Rightarrow> Inl e
           | Inr w' \<Rightarrow> println (format msg) (map format_size_t (args msg)) w'))"

subsection \<open>The message builder\<close>

text \<open>\<^verbatim>\<open>message_builder<CanId>\<close>: an empty class; \<open>CanId\<close> is its template argument.\<close>

record message_builder =
  CanId :: can_id_t

datatype build_error = Static_assert_failed

text \<open>
  \<^verbatim>\<open>message_builder<CanId>::create_message<Logger>\<close>, lines 97 to 111. The branch is
  chosen from the template argument \<open>Logger\<close> when the program is compiled, so the result
  is in two stages: the failure of the \<^verbatim>\<open>static_assert\<close>, or an instantiation.
  An instantiation is a function that is called when the program runs: like every call
  in this model it takes the input data and the state and returns a failure, or its
  result and the state after the call. The two bodies only construct a value.
\<close>

definition create_message ::
  "can_id_t \<Rightarrow> logger_type
     \<Rightarrow> build_error + (input_data \<Rightarrow> world \<Rightarrow> failure + message \<times> world)" where
  "create_message CanId' Logger =
     (if Logger = Can_logger then
        Inr (\<lambda>d w. Inr (Can_message
               \<lparr>can_id = CanId', data = can_data_t [length' d, width d, height d]\<rparr>, w))
      else if Logger = File_logger then
        Inr (\<lambda>d w. Inr (File_message
               \<lparr>format = ''input data: length: {}, width: {}, height: {}'',
                args = [length' d, width d, height d]\<rparr>, w))
      else Inl Static_assert_failed)"

subsection \<open>The dispatch routine\<close>

text \<open>
  \<^verbatim>\<open>logger.template log<Level>(message)\<close>: the member function of the logger's class,
  which takes that class's message type. Any other pairing does not compile.
\<close>

fun logger_log :: "logger_ref \<Rightarrow> log_level \<Rightarrow> message \<Rightarrow> world \<Rightarrow> failure + world" where
  "logger_log (Can_logger_ref a) Level (Can_message msg) w = can_logger_log Level msg w"
| "logger_log (File_logger_ref a) Level (File_message msg) w = file_logger_log Level msg w"
| "logger_log logger Level msg w = Inl Ill_formed"

text \<open>The generic lambda \<^verbatim>\<open>log\<close> of lines 120 to 125, for one logger.\<close>

definition log_lambda ::
  "log_level \<Rightarrow> input_data \<Rightarrow> message_builder \<Rightarrow> logger_ref \<Rightarrow> world \<Rightarrow> failure + world" where
  "log_lambda Level d builder logger w =
     (case create_message (CanId builder) (logger_t logger) of
        Inl e \<Rightarrow> Inl Ill_formed
      | Inr instance \<Rightarrow>
          (case instance d w of
             Inl e \<Rightarrow> Inl e
           | Inr (message, w0) \<Rightarrow>
               (let w1 = w0\<lparr>trace := trace w0 @ [Create_message (logger_t logger) d message]\<rparr>;
                    w2 = w1\<lparr>trace := trace w1 @ [Log logger Level message]\<rparr>
                in logger_log logger Level message w2)))"

text \<open>
  \<^verbatim>\<open>tp::log<Level>\<close>, lines 114 to 129: the fold \<^verbatim>\<open>(log(loggers_), ...)\<close> over the
  comma operator calls the lambda on the loggers from left to right.
\<close>

fun log ::
  "log_level \<Rightarrow> input_data \<Rightarrow> message_builder \<Rightarrow> logger_ref list \<Rightarrow> world \<Rightarrow> failure + world" where
  "log Level d builder [] w = Inr w"
| "log Level d builder (logger # loggers) w =
     (case log_lambda Level d builder logger w of
        Inl e \<Rightarrow> Inl e
      | Inr w' \<Rightarrow> log Level d builder loggers w')"

subsection \<open>The component\<close>

text \<open>
  \<^verbatim>\<open>component<Loggers...>\<close>, lines 131 to 150. Its members \<^verbatim>\<open>loggers_\<close> and
  \<^verbatim>\<open>message_builder_\<close> are the fields \<open>loggers'\<close> and \<open>message_builder'\<close>; its static
  constant \<^verbatim>\<open>can_id\<close> is \<open>component_can_id\<close>.
\<close>

record component =
  loggers' :: "logger_ref list"
  message_builder' :: message_builder

definition component_can_id :: can_id_t where
  "component_can_id = 10"

text \<open>The constructor, lines 142 to 144.\<close>

definition component :: "logger_ref list \<Rightarrow> component" where
  "component loggers =
     \<lparr>loggers' = loggers, message_builder' = \<lparr>CanId = component_can_id\<rparr>\<rparr>"

text \<open>
  \<^verbatim>\<open>component::process\<close>, lines 146 to 149: a member function that is not
  \<^verbatim>\<open>const\<close>, so it returns the object as it is after the call.
\<close>

definition process :: "component \<Rightarrow> input_data \<Rightarrow> world \<Rightarrow> failure + component \<times> world" where
  "process this input w =
     (case log info input (message_builder' this) (loggers' this) w of
        Inl e \<Rightarrow> Inl e
      | Inr w' \<Rightarrow> Inr (this, w'))"

text \<open>A caller that calls \<open>process\<close> on the same component once for each input, in order.\<close>

fun process_all :: "component \<Rightarrow> input_data list \<Rightarrow> world \<Rightarrow> failure + component \<times> world" where
  "process_all this [] w = Inr (this, w)"
| "process_all this (input # inputs) w =
     (case process this input w of
        Inl e \<Rightarrow> Inl e
      | Inr (this', w') \<Rightarrow> process_all this' inputs w')"

text \<open>
  \<^verbatim>\<open>main\<close>, lines 153 to 159, started with nothing written yet. The two loggers are
  distinct objects; their addresses are taken as 0 and 1.
\<close>

definition main :: "failure + component \<times> world" where
  "main =
     (let can_logger = Can_logger_ref 0;
          file_logger = File_logger_ref 1;
          comp = component [can_logger, file_logger]
      in process comp \<lparr>length' = 1, width = 2, height = 3\<rparr> \<lparr>stdout = [], trace = []\<rparr>)"

subsection \<open>Reading the history of calls\<close>

text \<open>
  Projections of the history: the loggers whose \<^verbatim>\<open>log\<close> was called, the levels of
  those calls, the logger types that \<^verbatim>\<open>create_message\<close> was called for, and the
  identifiers of the can messages it returned; each in the order of the calls.
\<close>

fun logged_ref :: "call \<Rightarrow> logger_ref list" where
  "logged_ref (Log logger Level msg) = [logger]"
| "logged_ref (Create_message Logger d msg) = []"

fun logged_level :: "call \<Rightarrow> log_level list" where
  "logged_level (Log logger Level msg) = [Level]"
| "logged_level (Create_message Logger d msg) = []"

fun built_type :: "call \<Rightarrow> logger_type list" where
  "built_type (Create_message Logger d msg) = [Logger]"
| "built_type (Log logger Level msg) = []"

fun built_can_id :: "call \<Rightarrow> can_id_t list" where
  "built_can_id (Create_message Logger d (Can_message msg)) = [can_id msg]"
| "built_can_id c = []"

definition logged_refs :: "call list \<Rightarrow> logger_ref list" where
  "logged_refs calls = concat (map logged_ref calls)"

definition logged_levels :: "call list \<Rightarrow> log_level list" where
  "logged_levels calls = concat (map logged_level calls)"

definition built_types :: "call list \<Rightarrow> logger_type list" where
  "built_types calls = concat (map built_type calls)"

definition built_can_ids :: "call list \<Rightarrow> can_id_t list" where
  "built_can_ids calls = concat (map built_can_id calls)"

text \<open>
  The message, the line of text and the two history entries that one call of the lambda
  yields for a logger, in closed form. \<open>log_lambda_valid\<close> below proves that the lambda
  yields exactly these.
\<close>

fun message_of :: "message_builder \<Rightarrow> input_data \<Rightarrow> logger_ref \<Rightarrow> message" where
  "message_of builder d (Can_logger_ref a) =
     Can_message \<lparr>can_id = CanId builder, data = [length' d, width d, height d, 0, 0, 0]\<rparr>"
| "message_of builder d (File_logger_ref a) =
     File_message \<lparr>format = ''input data: length: {}, width: {}, height: {}'',
                   args = [length' d, width d, height d]\<rparr>"

fun line_of :: "string \<Rightarrow> message_builder \<Rightarrow> input_data \<Rightarrow> logger_ref \<Rightarrow> string" where
  "line_of name builder d (Can_logger_ref a) =
     name @ '': can logger: can id: '' @ format_int32 (CanId builder) @ '', data: ''
       @ format_range [length' d, width d, height d, 0, 0, 0] @ [CHR 0x0A]"
| "line_of name builder d (File_logger_ref a) =
     name @ '': file logger: input data: length: '' @ format_size_t (length' d)
       @ '', width: '' @ format_size_t (width d)
       @ '', height: '' @ format_size_t (height d) @ [CHR 0x0A]"

definition calls_of :: "log_level \<Rightarrow> input_data \<Rightarrow> message_builder \<Rightarrow> logger_ref \<Rightarrow> call list" where
  "calls_of Level d builder logger =
     [Create_message (logger_t logger) d (message_of builder d logger),
      Log logger Level (message_of builder d logger)]"

text \<open>The number that a string of decimal digits denotes, to check \<open>dec\<close> against.\<close>

definition decimal_value :: "string \<Rightarrow> nat" where
  "decimal_value s = foldl (\<lambda>acc c. 10 * acc + (of_char c - 48)) 0 s"

section \<open>Properties\<close>

subsection \<open>Evaluating the formatting functions\<close>

lemma dec_small: "n < 10 \<Longrightarrow> dec n = [digit n]"
  by (subst dec.simps) simp

lemma dec_step: "10 \<le> n \<Longrightarrow> dec n = dec (n div 10) @ [digit (n mod 10)]"
  by (subst dec.simps) simp

lemma vformat_can:
  "vformat ''{}: can logger: can id: {}, data: {}'' [a, b, c]
     = Some (a @ '': can logger: can id: '' @ b @ '', data: '' @ c)"
  by simp

lemma vformat_file_prefix: "vformat ''{}: file logger: '' [a] = Some (a @ '': file logger: '')"
  by simp

lemma vformat_input:
  "vformat ''input data: length: {}, width: {}, height: {}'' [a, b, c]
     = Some (''input data: length: '' @ a @ '', width: '' @ b @ '', height: '' @ c)"
  by simp

lemma can_data_t3: "can_data_t [a, b, c] = [a, b, c, 0, 0, 0]"
  by (simp add: can_data_t_def max_data_size_def numeral_eq_Suc)

lemma of_char_digit: "d < 10 \<Longrightarrow> of_char (digit d) = 48 + d"
proof -
  assume "d < 10"
  then have "d \<in> {0, 1, 2, 3, 4, 5, 6, 7, 8, 9}" by auto
  then show ?thesis by (auto simp: digit_def)
qed

lemma decimal_value_dec: "decimal_value (dec n) = n"
proof (induction n rule: dec.induct)
  case (1 n)
  show ?case
  proof (cases "n < 10")
    case True
    then show ?thesis by (simp add: dec_small decimal_value_def of_char_digit)
  next
    case False
    with 1 have "decimal_value (dec (n div 10)) = n div 10" by simp
    with False show ?thesis
      by (simp add: dec_step decimal_value_def of_char_digit)
  qed
qed

lemma format_size_t_digits:
  "format_size_t 0 = ''0'' \<and> format_size_t 1 = ''1'' \<and> format_size_t 2 = ''2'' \<and> format_size_t 3 = ''3''"
  by (simp add: format_size_t_def dec_small digit_def)

lemma format_int32_10: "format_int32 10 = ''10''"
  by (simp add: format_int32_def dec_step dec_small digit_def)

subsection \<open>The three ranges of levels\<close>

lemmas level_defs = info_def warning_def error_def fatal_def count_def

lemma enumerator_cases:
  assumes "0 \<le> sint level" and "sint level < sint count"
  shows "level = info \<or> level = warning \<or> level = error \<or> level = fatal"
proof -
  from assms have "sint level = sint info \<or> sint level = sint warning
      \<or> sint level = sint error \<or> sint level = sint fatal"
    by (auto simp: level_defs)
  then show ?thesis
    by (auto dest: signed_word_eqI)
qed

lemma to_string_enumerators:
  "to_string info = Inr ''info''" "to_string warning = Inr ''warning''"
  "to_string error = Inr ''error''" "to_string fatal = Inr ''fatal''"
  by (simp_all add: to_string_def level_defs static_cast_size_t_def names_def)

lemma to_string_info: "to_string info = Inr ''info''"
  by (rule to_string_enumerators)

text \<open>From 0 up to, but not including, \<open>count\<close>: the name in the table.\<close>

lemma to_string_valid:
  assumes "0 \<le> sint level" and "sint level < sint count"
  shows "to_string level = Inr (names ! nat (sint level))"
  using enumerator_cases [OF assms]
  by (auto simp: to_string_enumerators) (simp_all add: level_defs names_def)

text \<open>Two different levels of that range have different names.\<close>

lemma to_string_inj:
  assumes "0 \<le> sint a" and "sint a < sint count" and "0 \<le> sint b" and "sint b < sint count"
    and "to_string a = to_string b"
  shows "a = b"
  using enumerator_cases [OF assms(1,2)] enumerator_cases [OF assms(3,4)] assms(5)
  by (auto simp: to_string_enumerators)

text \<open>From \<open>count\<close> on: the assertion fails.\<close>

lemma to_string_beyond: "sint count \<le> sint level \<Longrightarrow> to_string level = Inl Assertion_failed"
  by (simp add: to_string_def)

text \<open>Below 0: the assertion holds, and the index is far beyond the table.\<close>

lemma unat_static_cast_negative:
  assumes "sint level < 0"
  shows "unat (static_cast_size_t level) = nat (2 ^ 64 + sint level)"
proof -
  have up: "is_up (scast :: 32 word \<Rightarrow> 64 word)"
    by (simp add: is_up)
  have lo: "- (2 ^ 31) \<le> sint level"
    using sint_ge [of level] by simp
  have "uint (scast level :: 64 word) = take_bit 64 (sint (scast level :: 64 word))"
    using uint_sint [of "scast level :: 64 word"] by simp
  also have "\<dots> = sint level mod 2 ^ 64"
    by (simp add: sint_up_scast [OF up] take_bit_eq_mod)
  also have "\<dots> = 2 ^ 64 + sint level"
  proof -
    have "(sint level + 2 ^ 64) mod 2 ^ 64 = sint level + 2 ^ 64"
      using assms lo by (intro mod_pos_pos_trivial) simp_all
    then show ?thesis by (simp add: add.commute)
  qed
  finally show ?thesis
    by (simp add: static_cast_size_t_def unat_eq_nat_uint)
qed

lemma to_string_negative:
  assumes "sint level < 0"
  shows "to_string level = Inl Out_of_bounds"
proof -
  have "- (2 ^ 31) \<le> sint level"
    using sint_ge [of level] by simp
  then have "4 \<le> nat (2 ^ 64 + sint level)" by simp
  with assms show ?thesis
    by (simp add: to_string_def Let_def count_def names_def unat_static_cast_negative)
qed

subsection \<open>What one dispatch does\<close>

lemma create_message_of:
  "\<exists>instance. create_message (CanId builder) (logger_t logger) = Inr instance
     \<and> instance d w = Inr (message_of builder d logger, w)"
  by (cases logger) (simp_all add: create_message_def can_data_t3)

lemma logger_log_line:
  assumes "to_string Level = Inr name"
  shows "logger_log logger Level (message_of builder d logger) w
           = Inr (w\<lparr>stdout := stdout w @ line_of name builder d logger\<rparr>)"
  using assms
  by (cases logger)
    (simp_all add: can_logger_log_def file_logger_log_def print_def println_def)

text \<open>What a logger writes does not depend on the history, and the history is not its to change.\<close>

lemma logger_log_trace:
  "logger_log logger Level msg (w\<lparr>trace := t\<rparr>)
     = map_sum id (\<lambda>w'. w'\<lparr>trace := t\<rparr>) (logger_log logger Level msg w)"
  by (cases logger; cases msg)
    (auto simp: can_logger_log_def file_logger_log_def print_def println_def
      split: sum.splits option.splits)

lemma log_lambda_output:
  assumes "create_message (CanId builder) (logger_t logger) = Inr inst"
    and "inst d w = Inr (msg, w)"
  shows "map_sum id stdout (log_lambda Level d builder logger w)
           = map_sum id stdout (logger_log logger Level msg w)"
  using assms
  by (cases "logger_log logger Level msg w")
    (simp_all add: log_lambda_def Let_def logger_log_trace)

lemma log_lambda_valid:
  assumes "to_string Level = Inr name"
  shows "log_lambda Level d builder logger w =
           Inr (w\<lparr>stdout := stdout w @ line_of name builder d logger,
                  trace := trace w @ calls_of Level d builder logger\<rparr>)"
proof -
  obtain inst where "create_message (CanId builder) (logger_t logger) = Inr inst"
    and "inst d w = Inr (message_of builder d logger, w)"
    using create_message_of by blast
  then show ?thesis
    by (simp add: log_lambda_def Let_def logger_log_line [OF assms] calls_of_def)
qed

lemma log_valid:
  assumes "to_string Level = Inr name"
  shows "log Level d builder loggers w =
           Inr (w\<lparr>stdout := stdout w @ concat (map (line_of name builder d) loggers),
                  trace := trace w @ concat (map (calls_of Level d builder) loggers)\<rparr>)"
proof (induction loggers arbitrary: w)
  case Nil
  show ?case by simp
next
  case (Cons logger loggers)
  show ?case
    by (simp add: log_lambda_valid [OF assms] Cons.IH)
qed

lemma process_eq:
  "process c d w =
     Inr (c, w\<lparr>stdout := stdout w @ concat (map (line_of ''info'' (message_builder' c) d) (loggers' c)),
               trace := trace w @ concat (map (calls_of info d (message_builder' c)) (loggers' c))\<rparr>)"
  by (simp add: process_def log_valid [OF to_string_info])

lemma process_all_eq:
  "process_all c ds w =
     Inr (c, w\<lparr>stdout := stdout w @ concat (map (\<lambda>d. concat (map (line_of ''info'' (message_builder' c) d) (loggers' c))) ds),
               trace := trace w @ concat (map (\<lambda>d. concat (map (calls_of info d (message_builder' c)) (loggers' c))) ds)\<rparr>)"
  by (induction ds arbitrary: w) (simp_all add: process_eq)

lemma logged_refs_calls:
  "logged_refs (concat (map (calls_of Level d builder) loggers)) = loggers"
  by (induction loggers) (simp_all add: logged_refs_def calls_of_def)

lemma logged_levels_calls:
  "logged_levels (concat (map (calls_of Level d builder) loggers)) = replicate (length loggers) Level"
  by (induction loggers) (simp_all add: logged_levels_def calls_of_def)

lemma built_types_calls:
  "built_types (concat (map (calls_of Level d builder) loggers)) = map logger_t loggers"
  by (induction loggers) (simp_all add: built_types_def calls_of_def)

lemma length_calls:
  "length (concat (map (calls_of Level d builder) loggers)) = 2 * length loggers"
  by (induction loggers) (simp_all add: calls_of_def)

lemma built_can_ids_calls:
  "built_can_ids (concat (map (calls_of Level d builder) loggers))
     = map (\<lambda>logger. CanId builder) (filter (\<lambda>logger. logger_t logger = Can_logger) loggers)"
proof (induction loggers)
  case Nil
  show ?case by (simp add: built_can_ids_def)
next
  case (Cons logger loggers)
  then show ?case
    by (cases logger) (simp_all add: built_can_ids_def calls_of_def)
qed

lemma logged_refs_rounds:
  "logged_refs (concat (replicate M (concat (map (calls_of Level d builder) loggers))))
     = concat (replicate M loggers)"
proof (induction M)
  case 0
  show ?case by (simp add: logged_refs_def)
next
  case (Suc M)
  have "logged_refs (xs @ ys) = logged_refs xs @ logged_refs ys" for xs ys
    by (simp add: logged_refs_def)
  with Suc show ?case by (simp add: logged_refs_calls)
qed

lemma built_types_rounds:
  "built_types (concat (replicate M (concat (map (calls_of Level d builder) loggers))))
     = concat (replicate M (map logger_t loggers))"
proof (induction M)
  case 0
  show ?case by (simp add: built_types_def)
next
  case (Suc M)
  have "built_types (xs @ ys) = built_types xs @ built_types ys" for xs ys
    by (simp add: built_types_def)
  with Suc show ?case by (simp add: built_types_calls)
qed

subsection \<open>Level names\<close>

text \<open>
  Claim C5. The claim takes every level strictly below \<open>count\<close> as valid and promises a
  defined result everywhere: a name on the valid levels, an abort on the others. The
  level \<open>- 1\<close>, made by a cast, is strictly below \<open>count\<close> as the assertion compares
  them, so the assertion holds; it is then converted to the index \<open>2 ^ 64 - 1\<close>, and
  the read of \<open>names\<close> at that index is out of bounds. \<open>to_string\<close> returns no name
  there and does not abort. (On the levels from 0 to 3 it returns the four names, and
  from \<open>count\<close> on the assertion fails: \<open>to_string_valid\<close>, \<open>to_string_inj\<close> and
  \<open>to_string_beyond\<close> above.)
\<close>

theorem to_string_negative_level:
  "sint (- 1 :: log_level) < sint count
   \<and> unat (static_cast_size_t (- 1)) = 2 ^ 64 - 1
   \<and> \<not> unat (static_cast_size_t (- 1)) < length names
   \<and> to_string (- 1) = Inl Out_of_bounds"
  by (simp add: to_string_negative unat_static_cast_negative count_def names_def)

subsection \<open>The messages that are built\<close>

text \<open>
  Claim C2. For the can logger, \<open>create_message\<close> with identifier \<open>ID\<close> has an
  instantiation, and on the input data with length \<open>L\<close>, width \<open>W\<close> and height \<open>H\<close> it
  returns the message with identifier \<open>ID\<close> and the six data slots \<open>L, W, H, 0, 0, 0\<close>,
  in whatever state it is called and leaving that state as it is.
\<close>

theorem create_message_can_logger:
  "\<exists>instance. create_message ID Can_logger = Inr instance
     \<and> instance \<lparr>length' = L, width = W, height = H\<rparr> w
         = Inr (Can_message \<lparr>can_id = ID, data = [L, W, H, 0, 0, 0]\<rparr>, w)"
  by (simp add: create_message_def can_data_t3)

text \<open>
  Claim C3. For the file logger, \<open>create_message\<close> has an instantiation, and on the
  input data with length \<open>L\<close>, width \<open>W\<close> and height \<open>H\<close> it returns a message whose
  format string is the fixed text with three replacement fields and whose arguments are
  \<open>L, W, H\<close> in that order. Formatting the message gives
  \<^verbatim>\<open>input data: length: L, width: W, height: H\<close> with the three values in decimal
  (and \<open>dec\<close> is the decimal notation: reading it back gives the value), and this is the
  text that \<open>file_logger_log\<close> writes after its prefix. With only two arguments the
  format string has a field too many.
\<close>

theorem create_message_file_logger:
  "\<exists>instance msg. create_message ID File_logger = Inr instance
     \<and> instance \<lparr>length' = L, width = W, height = H\<rparr> w = Inr (File_message msg, w)
     \<and> format msg = ''input data: length: {}, width: {}, height: {}''
     \<and> args msg = [L, W, H]
     \<and> vformat (format msg) (map format_size_t (args msg))
         = Some (''input data: length: '' @ dec (unat L) @ '', width: '' @ dec (unat W)
                 @ '', height: '' @ dec (unat H))
     \<and> file_logger_log info msg w
         = Inr (w\<lparr>stdout := stdout w @ ''info: file logger: '' @ ''input data: length: ''
                    @ dec (unat L) @ '', width: '' @ dec (unat W)
                    @ '', height: '' @ dec (unat H) @ [CHR 0x0A]\<rparr>)
     \<and> decimal_value (dec (unat L)) = unat L \<and> decimal_value (dec (unat W)) = unat W
     \<and> decimal_value (dec (unat H)) = unat H
     \<and> vformat (format msg) [a, b] = None"
  by (simp add: create_message_def format_size_t_def file_logger_log_def to_string_info
      print_def println_def decimal_value_dec)

text \<open>
  Claim C7. For each of the two logger classes of the program \<open>create_message\<close> has an
  instantiation, and a call of it, for any input data and in any state, returns a
  message (it does not fail), returns the same message whatever the state, and returns
  the state exactly as it was (nothing is written to the output, nothing else changes).
  For any other class the \<^verbatim>\<open>static_assert\<close> fails: \<open>create_message\<close> has no
  instantiation, whatever the identifier, and so there is no function that could be
  called with input data when the program runs. A logger reference of a component is
  always of one of the two classes, so every call that the dispatch lambda makes is of
  the first kind, and all that the lambda writes to the output is what the logger's
  \<open>log\<close> writes for that message: building it wrote nothing.
\<close>

theorem create_message_known_loggers:
  "((Logger = Can_logger \<or> Logger = File_logger) \<longrightarrow>
      (\<exists>instance msg. create_message ID Logger = Inr instance
         \<and> (\<forall>w. instance d w = Inr (msg, w))))
   \<and> (Logger' \<noteq> Can_logger \<and> Logger' \<noteq> File_logger \<longrightarrow>
        create_message ID Logger' = Inl Static_assert_failed)
   \<and> (\<exists>instance msg. create_message (CanId builder) (logger_t logger) = Inr instance
         \<and> (\<forall>w. instance d w = Inr (msg, w))
         \<and> (\<forall>w. map_sum id stdout (log_lambda Level d builder logger w)
                  = map_sum id stdout (logger_log logger Level msg w)))"
proof -
  obtain inst where inst: "create_message (CanId builder) (logger_t logger) = Inr inst"
    and msg: "\<And>w. inst d w = Inr (message_of builder d logger, w)"
    by (cases logger) (simp_all add: create_message_def can_data_t3)
  have "\<forall>w. map_sum id stdout (log_lambda Level d builder logger w)
                  = map_sum id stdout (logger_log logger Level (message_of builder d logger) w)"
    using log_lambda_output [OF inst msg] by simp
  with inst msg
  have "\<exists>instance msg. create_message (CanId builder) (logger_t logger) = Inr instance
         \<and> (\<forall>w. instance d w = Inr (msg, w))
         \<and> (\<forall>w. map_sum id stdout (log_lambda Level d builder logger w)
                  = map_sum id stdout (logger_log logger Level msg w))"
    by blast
  then show ?thesis
    by (auto simp: create_message_def)
qed

theorem create_message_known_loggers_witness:
  "(File_logger = Can_logger \<or> File_logger = File_logger)
   \<and> (\<exists>instance msg. create_message 10 File_logger = Inr instance
         \<and> (\<forall>w. instance \<lparr>length' = 1, width = 2, height = 3\<rparr> w = Inr (msg, w)))
   \<and> Other_logger ''tcp_logger'' \<noteq> Can_logger \<and> Other_logger ''tcp_logger'' \<noteq> File_logger
   \<and> create_message 10 (Other_logger ''tcp_logger'') = Inl Static_assert_failed"
  using create_message_known_loggers
    [of File_logger 10 "\<lparr>length' = 1, width = 2, height = 3\<rparr>" "Other_logger ''tcp_logger''"
      "\<lparr>CanId = 10\<rparr>" "File_logger_ref 1" info]
  by simp

subsection \<open>Dispatch\<close>

text \<open>
  Claim C1. One call of \<open>process\<close> on a component with \<open>N\<close> loggers returns. It appends
  to the standard output one line for each logger, in the order in which the loggers
  were given to the component: the line that this logger's own \<open>log\<close> writes, at level
  \<open>info\<close>, for the message that \<open>create_message\<close> returns for this logger's class. It
  adds exactly \<open>2 * N\<close> calls to the history: \<open>create_message\<close> once for each logger's
  class and \<open>log\<close> once on each logger, both in that order. \<open>M\<close> calls of \<open>process\<close> in
  a row write the same lines and make the same calls \<open>M\<close> times over.
\<close>

theorem process_invokes_every_logger_once_in_order:
  "(\<exists>w' new. process c d w = Inr (c, w')
      \<and> stdout w' = stdout w @ concat (map (line_of ''info'' (message_builder' c) d) (loggers' c))
      \<and> trace w' = trace w @ new
      \<and> logged_refs new = loggers' c
      \<and> built_types new = map logger_t (loggers' c)
      \<and> length new = 2 * length (loggers' c))
   \<and> (\<exists>w' new. process_all c (replicate M d) w = Inr (c, w')
      \<and> stdout w' = stdout w
           @ concat (replicate M (concat (map (line_of ''info'' (message_builder' c) d) (loggers' c))))
      \<and> trace w' = trace w @ new
      \<and> logged_refs new = concat (replicate M (loggers' c))
      \<and> built_types new = concat (replicate M (map logger_t (loggers' c))))
   \<and> (\<exists>instance. create_message (CanId (message_builder' c)) (logger_t logger) = Inr instance
      \<and> instance d w = Inr (message_of (message_builder' c) d logger, w))
   \<and> logger_log logger info (message_of (message_builder' c) d logger) w
       = Inr (w\<lparr>stdout := stdout w @ line_of ''info'' (message_builder' c) d logger\<rparr>)"
proof (intro conjI)
  show "\<exists>w' new. process c d w = Inr (c, w')
      \<and> stdout w' = stdout w @ concat (map (line_of ''info'' (message_builder' c) d) (loggers' c))
      \<and> trace w' = trace w @ new
      \<and> logged_refs new = loggers' c
      \<and> built_types new = map logger_t (loggers' c)
      \<and> length new = 2 * length (loggers' c)"
    by (simp add: process_eq logged_refs_calls built_types_calls length_calls)
  show "\<exists>w' new. process_all c (replicate M d) w = Inr (c, w')
      \<and> stdout w' = stdout w
           @ concat (replicate M (concat (map (line_of ''info'' (message_builder' c) d) (loggers' c))))
      \<and> trace w' = trace w @ new
      \<and> logged_refs new = concat (replicate M (loggers' c))
      \<and> built_types new = concat (replicate M (map logger_t (loggers' c)))"
    by (simp add: process_all_eq logged_refs_rounds built_types_rounds)
  show "\<exists>instance. create_message (CanId (message_builder' c)) (logger_t logger) = Inr instance
      \<and> instance d w = Inr (message_of (message_builder' c) d logger, w)"
    by (rule create_message_of)
  show "logger_log logger info (message_of (message_builder' c) d logger) w
       = Inr (w\<lparr>stdout := stdout w @ line_of ''info'' (message_builder' c) d logger\<rparr>)"
    by (rule logger_log_line [OF to_string_info])
qed

text \<open>
  Claim C4, as stated: the caller of \<open>process\<close> chooses the level. It does not:
  \<open>process\<close> takes no level, and on a component with one can logger its one \<open>log\<close> call
  is at level \<open>info\<close> and the line it writes starts with \<^verbatim>\<open>info\<close>, not at \<open>warning\<close>.
\<close>

theorem process_level_counterexample:
  "map_sum id (logged_levels \<circ> trace \<circ> snd)
     (process (component [Can_logger_ref 0]) \<lparr>length' = 1, width = 2, height = 3\<rparr>
        \<lparr>stdout = [], trace = []\<rparr>) = Inr [info]
   \<and> [info] \<noteq> [warning]
   \<and> map_sum id (stdout \<circ> snd)
     (process (component [Can_logger_ref 0]) \<lparr>length' = 1, width = 2, height = 3\<rparr>
        \<lparr>stdout = [], trace = []\<rparr>)
       = Inr (''info: can logger: can id: 10, data: [1, 2, 3, 0, 0, 0]'' @ [CHR 0x0A])"
  by (simp add: process_eq component_def component_can_id_def logged_levels_def calls_of_def
      level_defs format_int32_10 format_range_def format_size_t_digits)

text \<open>
  Claim C4, amended. The level is a parameter of the dispatch routine \<open>log\<close>: for each
  of the levels \<open>info\<close>, \<open>warning\<close>, \<open>error\<close> and \<open>fatal\<close> (the values from 0 up to, not
  including, \<open>count\<close>), \<open>log\<close> at that level calls every logger, in order, at that
  level, and every line written starts with the name of that level. \<open>process\<close> has no
  level parameter and always dispatches at \<open>info\<close>.
\<close>

theorem log_level_free_process_info:
  "(0 \<le> sint Level \<and> sint Level < sint count \<longrightarrow>
      (\<exists>name w' new. to_string Level = Inr name \<and> name = names ! nat (sint Level)
         \<and> log Level d builder loggers w = Inr w'
         \<and> stdout w' = stdout w @ concat (map (line_of name builder d) loggers)
         \<and> trace w' = trace w @ new
         \<and> logged_refs new = loggers
         \<and> logged_levels new = replicate (length loggers) Level))
   \<and> (\<exists>w' new. process c d w = Inr (c, w')
         \<and> stdout w' = stdout w @ concat (map (line_of ''info'' (message_builder' c) d) (loggers' c))
         \<and> trace w' = trace w @ new
         \<and> logged_refs new = loggers' c
         \<and> logged_levels new = replicate (length (loggers' c)) info)
   \<and> take (length name') (line_of name' builder d logger) = name'"
proof (intro conjI impI)
  assume valid: "0 \<le> sint Level \<and> sint Level < sint count"
  then have "to_string Level = Inr (names ! nat (sint Level))"
    by (simp add: to_string_valid)
  then show "\<exists>name w' new. to_string Level = Inr name \<and> name = names ! nat (sint Level)
         \<and> log Level d builder loggers w = Inr w'
         \<and> stdout w' = stdout w @ concat (map (line_of name builder d) loggers)
         \<and> trace w' = trace w @ new
         \<and> logged_refs new = loggers
         \<and> logged_levels new = replicate (length loggers) Level"
    by (simp add: log_valid logged_refs_calls logged_levels_calls)
next
  show "\<exists>w' new. process c d w = Inr (c, w')
         \<and> stdout w' = stdout w @ concat (map (line_of ''info'' (message_builder' c) d) (loggers' c))
         \<and> trace w' = trace w @ new
         \<and> logged_refs new = loggers' c
         \<and> logged_levels new = replicate (length (loggers' c)) info"
    by (simp add: process_eq logged_refs_calls logged_levels_calls)
next
  show "take (length name') (line_of name' builder d logger) = name'"
    by (cases logger) simp_all
qed

theorem log_level_free_process_info_witness:
  "0 \<le> sint warning \<and> sint warning < sint count
   \<and> (\<exists>name w' new. to_string warning = Inr name \<and> name = names ! nat (sint warning)
         \<and> log warning \<lparr>length' = 1, width = 2, height = 3\<rparr> \<lparr>CanId = 10\<rparr>
              [Can_logger_ref 0, File_logger_ref 1] \<lparr>stdout = [], trace = []\<rparr> = Inr w'
         \<and> stdout w' = stdout \<lparr>stdout = [], trace = []\<rparr>
              @ concat (map (line_of name \<lparr>CanId = 10\<rparr> \<lparr>length' = 1, width = 2, height = 3\<rparr>)
                  [Can_logger_ref 0, File_logger_ref 1])
         \<and> trace w' = trace \<lparr>stdout = [], trace = []\<rparr> @ new
         \<and> logged_refs new = [Can_logger_ref 0, File_logger_ref 1]
         \<and> logged_levels new = replicate (length [Can_logger_ref 0, File_logger_ref 1]) warning)"
proof -
  have h: "0 \<le> sint warning \<and> sint warning < sint count"
    by (simp add: level_defs)
  from log_level_free_process_info [of warning "\<lparr>length' = 1, width = 2, height = 3\<rparr>"
      "\<lparr>CanId = 10\<rparr>" "[Can_logger_ref 0, File_logger_ref 1]" "\<lparr>stdout = [], trace = []\<rparr>"]
    h
  show ?thesis by blast
qed

text \<open>
  Claim C6. \<open>main\<close> builds a component on a can logger and a file logger and processes
  the input data 1, 2, 3. It makes two \<open>log\<close> calls: first on the can logger, at level
  \<open>info\<close>, with the message of identifier 10 and data 1, 2, 3, 0, 0, 0; then on the file
  logger, at level \<open>info\<close>, with the message whose text is
  \<^verbatim>\<open>input data: length: 1, width: 2, height: 3\<close>. The standard output holds the
  two lines, in that order.
\<close>

theorem main_output:
  "main =
     Inr (component [Can_logger_ref 0, File_logger_ref 1],
          \<lparr>stdout = ''info: can logger: can id: 10, data: [1, 2, 3, 0, 0, 0]'' @ [CHR 0x0A]
                    @ ''info: file logger: input data: length: 1, width: 2, height: 3''
                    @ [CHR 0x0A],
           trace =
             [Create_message Can_logger \<lparr>length' = 1, width = 2, height = 3\<rparr>
                (Can_message \<lparr>can_id = 10, data = [1, 2, 3, 0, 0, 0]\<rparr>),
              Log (Can_logger_ref 0) info
                (Can_message \<lparr>can_id = 10, data = [1, 2, 3, 0, 0, 0]\<rparr>),
              Create_message File_logger \<lparr>length' = 1, width = 2, height = 3\<rparr>
                (File_message \<lparr>format = ''input data: length: {}, width: {}, height: {}'',
                               args = [1, 2, 3]\<rparr>),
              Log (File_logger_ref 1) info
                (File_message \<lparr>format = ''input data: length: {}, width: {}, height: {}'',
                               args = [1, 2, 3]\<rparr>)]\<rparr>)
   \<and> vformat ''input data: length: {}, width: {}, height: {}'' (map format_size_t [1, 2, 3])
       = Some ''input data: length: 1, width: 2, height: 3''"
  by (simp add: main_def Let_def process_eq component_def component_can_id_def calls_of_def
      format_size_t_digits format_int32_10 format_range_def)

text \<open>
  Claim C8. \<open>process\<close> returns the component as it was, so the list of logger
  references and the message builder are the same after any sequence of calls as before
  it; and what a call appends to the output and to the history depends only on the
  component and the input data, not on what was written before.
\<close>

theorem process_leaves_component_unchanged:
  "(\<exists>text calls. \<forall>w. process c d w
        = Inr (c, w\<lparr>stdout := stdout w @ text, trace := trace w @ calls\<rparr>))
   \<and> map_sum id fst (process_all c ds w) = Inr c"
proof
  show "\<exists>text calls. \<forall>w. process c d w
        = Inr (c, w\<lparr>stdout := stdout w @ text, trace := trace w @ calls\<rparr>)"
    using process_eq [of c d] by blast
  show "map_sum id fst (process_all c ds w) = Inr c"
    by (simp add: process_all_eq)
qed

text \<open>
  Claim C9. The constructor accepts an empty list of loggers, and \<open>process\<close> on such a
  component returns normally with the state unchanged: nothing is built, nothing is
  logged, nothing is written.
\<close>

theorem process_empty_component:
  "process (component []) d w = Inr (component [], w)"
  by (simp add: process_def component_def)

text \<open>
  Claim C10. Whatever loggers a component is constructed with and whatever the input
  data, every can message built during \<open>process\<close> has the identifier 10, and there is one
  such message for each can logger of the component.
\<close>

theorem process_builds_can_id_10:
  "\<exists>w' new. process (component loggers) d w = Inr (component loggers, w')
     \<and> trace w' = trace w @ new
     \<and> built_can_ids new = map (\<lambda>logger. 10) (filter (\<lambda>logger. logger_t logger = Can_logger) loggers)"
  by (simp add: process_eq built_can_ids_calls) (simp add: component_def component_can_id_def)

end
